theory Spec2Isabelle
  imports Main "HOL-Library.Sublist"
begin

section \<open>The two stores behind the resolvers of server.js\<close>

text \<open>
  The server resolves GraphQL fields from two stores: a MongoDB collection of users (the dog
  walkers, reached through the mongoose model \<open>User\<close>) and a PostgreSQL table of dogs
  (reached through \<open>dogDB.query\<close>). Both stores are modelled as values that every resolver
  takes and returns. A resolver's result is \<open>Inl e\<close> when the JavaScript function throws
  (the promise rejects) and \<open>Inr v\<close> when it returns \<open>v\<close>.
\<close>

datatype error = StoreUnavailable | WriteRejected | SyntaxError | TypeError

subsection \<open>ObjectID\<close>

text \<open>
  An ObjectID is twelve bytes. \<open>new ObjectID(s)\<close> on a string accepts a string of 24 hex
  digits (either case), which it decodes, or a string of 12 characters, which it takes as the
  bytes; on any other string it throws a TypeError (\<open>None\<close>). \<open>toHexString\<close> is the
  form in which GraphQL shows the field \<open>id\<close> of a user.
\<close>

type_synonym object_id = string

definition hex_val :: "char \<Rightarrow> nat option" where
  "hex_val c =
     (let n = (of_char c :: nat) in
      if 48 \<le> n \<and> n \<le> 57 then Some (n - 48)
      else if 97 \<le> n \<and> n \<le> 102 then Some (n - 87)
      else if 65 \<le> n \<and> n \<le> 70 then Some (n - 55)
      else None)"

definition hex_digit :: "nat \<Rightarrow> char" where
  "hex_digit n = char_of (if n < 10 then 48 + n else 87 + n)"

fun createFromHexString :: "string \<Rightarrow> object_id option" where
  "createFromHexString [] = Some []"
| "createFromHexString [a] = None"
| "createFromHexString (a # b # cs) =
     (case hex_val a of
        None \<Rightarrow> None
      | Some x \<Rightarrow>
          (case hex_val b of
             None \<Rightarrow> None
           | Some y \<Rightarrow>
               (case createFromHexString cs of
                  None \<Rightarrow> None
                | Some r \<Rightarrow> Some (char_of (16 * x + y) # r))))"

definition toHexString :: "object_id \<Rightarrow> string" where
  "toHexString oid =
     concat (map (\<lambda>c. [hex_digit ((of_char c :: nat) div 16), hex_digit ((of_char c :: nat) mod 16)]) oid)"

definition ObjectID :: "string \<Rightarrow> object_id option" where
  "ObjectID s =
     (if length s = 24 then createFromHexString s
      else if length s = 12 then Some s
      else None)"

subsection \<open>The users collection (mongoose model \<open>User\<close>)\<close>

text \<open>The schema of models.js: \<open>name: String, dogIds: [Number]\<close>, and the \<open>_id\<close> mongoose adds.\<close>

record user =
  user_id :: object_id
  user_name :: string
  dogIds :: "int list"

datatype bson = BOid object_id | BStr string | BNum int | BArr "bson list"

type_synonym document = "(string \<times> bson) list"

definition user_doc :: "user \<Rightarrow> document" where
  "user_doc u =
     [(''_id'', BOid (user_id u)), (''name'', BStr (user_name u)),
      (''dogIds'', BArr (map BNum (dogIds u)))]"

definition schema_paths :: "string list" where
  "schema_paths = [''_id'', ''name'', ''dogIds'']"

text \<open>
  One condition \<open>{path: value}\<close> of a MongoDB filter holds of a document when the document
  has the path and its value is the given one, or is an array that contains it.
\<close>

definition field_matches :: "document \<Rightarrow> string \<times> bson \<Rightarrow> bool" where
  "field_matches doc kv =
     (case map_of doc (fst kv) of
        None \<Rightarrow> False
      | Some x \<Rightarrow> x = snd kv \<or> (case x of BArr xs \<Rightarrow> snd kv \<in> set xs | _ \<Rightarrow> False))"

datatype mongo_call =
    Save user
  | UpdateOnePush object_id int
  | Find
  | FindOne document

text \<open>
  \<open>mongo_up\<close> says whether the store answers; \<open>mongo_calls\<close> records every operation sent
  to the collection, in order.
\<close>

record mongo_store =
  mongo_up :: bool
  users :: "user list"
  mongo_calls :: "mongo_call list"

text \<open>\<open>user.save()\<close>: inserts the document; a second document with the same \<open>_id\<close> is rejected.\<close>

definition save :: "user \<Rightarrow> mongo_store \<Rightarrow> (error + unit) \<times> mongo_store" where
  "save u m =
     (let m' = m\<lparr>mongo_calls := mongo_calls m @ [Save u]\<rparr> in
      if \<not> mongo_up m then (Inl StoreUnavailable, m')
      else if user_id u \<in> set (map user_id (users m)) then (Inl WriteRejected, m')
      else (Inr (), m'\<lparr>users := users m @ [u]\<rparr>))"

text \<open>
  \<open>User.updateOne({ _id: oid }, { $push: { dogIds: a } })\<close>: the first document with that
  \<open>_id\<close> gets \<open>a\<close> appended to its \<open>dogIds\<close>; when no document has it, nothing is changed and
  the call still succeeds.
\<close>

fun push_first :: "object_id \<Rightarrow> int \<Rightarrow> user list \<Rightarrow> user list" where
  "push_first oid a [] = []"
| "push_first oid a (u # us) =
     (if user_id u = oid then u\<lparr>dogIds := dogIds u @ [a]\<rparr> # us
      else u # push_first oid a us)"

definition updateOne :: "object_id \<Rightarrow> int \<Rightarrow> mongo_store \<Rightarrow> (error + unit) \<times> mongo_store" where
  "updateOne oid a m =
     (let m' = m\<lparr>mongo_calls := mongo_calls m @ [UpdateOnePush oid a]\<rparr> in
      if \<not> mongo_up m then (Inl StoreUnavailable, m')
      else (Inr (), m'\<lparr>users := push_first oid a (users m)\<rparr>))"

text \<open>\<open>User.find()\<close>: all documents, in the collection's order.\<close>

definition find_all :: "mongo_store \<Rightarrow> (error + user list) \<times> mongo_store" where
  "find_all m =
     (let m' = m\<lparr>mongo_calls := mongo_calls m @ [Find]\<rparr> in
      if \<not> mongo_up m then (Inl StoreUnavailable, m') else (Inr (users m), m'))"

text \<open>
  \<open>User.findOne(filter)\<close>: the first document that satisfies every condition of the filter,
  or null (\<open>None\<close>). Mongoose's option \<open>strictQuery\<close> decides what happens to a condition on
  a path that the schema does not have: when it is off the condition is sent to the store as
  it is, when it is on the condition is dropped from the filter. The option is a parameter,
  since its default differs between versions of mongoose.
\<close>

definition cast_filter :: "bool \<Rightarrow> document \<Rightarrow> document" where
  "cast_filter strictQuery flt =
     (if strictQuery then filter (\<lambda>kv. fst kv \<in> set schema_paths) flt else flt)"

definition doc_matches :: "document \<Rightarrow> user \<Rightarrow> bool" where
  "doc_matches flt u = list_all (field_matches (user_doc u)) flt"

definition findOne :: "bool \<Rightarrow> document \<Rightarrow> mongo_store \<Rightarrow> (error + user option) \<times> mongo_store" where
  "findOne strictQuery flt m =
     (let m' = m\<lparr>mongo_calls := mongo_calls m @ [FindOne flt]\<rparr> in
      if \<not> mongo_up m then (Inl StoreUnavailable, m')
      else (Inr (find (doc_matches (cast_filter strictQuery flt)) (users m)), m'))"

subsection \<open>The dogs table (dogs.sql) behind \<open>dogDB.query\<close>\<close>

text \<open>
  \<open>public.dogs\<close>: \<open>id serial\<close>, \<open>name varchar\<close>, \<open>breed varchar (60)\<close>, \<open>walkerId varchar\<close>
  (nullable).
\<close>

record dog =
  dog_id :: int
  dog_name :: string
  breed :: string
  walkerId :: "string option"

text \<open>The three statements that server.js sends.\<close>

datatype pg_query =
    InsertDog string string string
  | SelectAllDogs
  | SelectDogsIn "int list"

text \<open>
  \<open>pg_up\<close> says whether the store answers; \<open>next_id\<close> is the sequence behind the serial
  column; \<open>executed\<close> is what \<open>dogDB.query\<close> prints with \<open>console.log('executed query', text)\<close>:
  every statement handed to the pool, in order.
\<close>

record pg_store =
  pg_up :: bool
  rows :: "dog list"
  next_id :: int
  executed :: "pg_query list"

text \<open>
  Storing a string into a \<open>varchar (n)\<close> column: PostgreSQL rejects a longer string, unless
  the characters beyond the first \<open>n\<close> are all spaces, in which case it stores the first
  \<open>n\<close> characters.
\<close>

definition varchar_assign :: "nat \<Rightarrow> string \<Rightarrow> string option" where
  "varchar_assign n s =
     (if length s \<le> n then Some s
      else if list_all (\<lambda>c. c = CHR '' '') (drop n s) then Some (take n s)
      else None)"

text \<open>
  \<open>pool.query\<close>. A table that is only inserted into is scanned in insertion order, so the
  list \<open>rows\<close> is the table in its natural order. \<open>IN ()\<close> with no value is a syntax error.
\<close>

definition pool_query :: "pg_query \<Rightarrow> pg_store \<Rightarrow> (error + dog list) \<times> pg_store" where
  "pool_query q db =
     (if \<not> pg_up db then (Inl StoreUnavailable, db)
      else case q of
        InsertDog n b w \<Rightarrow>
          (case varchar_assign 60 b of
             None \<Rightarrow> (Inl WriteRejected, db)
           | Some b' \<Rightarrow>
               (let d = \<lparr>dog_id = next_id db, dog_name = n, breed = b', walkerId = Some w\<rparr>
                in (Inr [d], db\<lparr>rows := rows db @ [d], next_id := next_id db + 1\<rparr>)))
      | SelectAllDogs \<Rightarrow> (Inr (rows db), db)
      | SelectDogsIn ids \<Rightarrow>
          (if ids = [] then (Inl SyntaxError, db)
           else (Inr (filter (\<lambda>d. dog_id d \<in> set ids) (rows db)), db)))"

definition dogDB_query :: "pg_query \<Rightarrow> pg_store \<Rightarrow> (error + dog list) \<times> pg_store" where
  "dogDB_query q db = pool_query q (db\<lparr>executed := executed db @ [q]\<rparr>)"

section \<open>The resolvers\<close>

record world =
  userDB :: mongo_store
  dogDB :: pg_store

definition init_world :: world where
  "init_world =
     \<lparr>userDB = \<lparr>mongo_up = True, users = [], mongo_calls = []\<rparr>,
      dogDB = \<lparr>pg_up = True, rows = [], next_id = 1, executed = []\<rparr>\<rparr>"

text \<open>
  \<open>Mutation.createUser\<close>. \<open>new User(...)\<close> draws the \<open>_id\<close>; it is the parameter \<open>oid\<close>.
  A failing \<open>save\<close> is caught and printed, and the user object is returned all the same.
\<close>

definition createUser :: "object_id \<Rightarrow> string \<Rightarrow> world \<Rightarrow> (error + user) \<times> world" where
  "createUser oid name w =
     (let user = \<lparr>user_id = oid, user_name = name, dogIds = []\<rparr> in
      case save user (userDB w) of
        (Inl e, m') \<Rightarrow> (Inr user, w\<lparr>userDB := m'\<rparr>)
      | (Inr _, m') \<Rightarrow> (Inr user, w\<lparr>userDB := m'\<rparr>))"

text \<open>
  \<open>Mutation.createDog\<close>. A failing insert is caught and printed and leaves \<open>data\<close> null, so
  that \<open>data.rows[0]\<close> throws a TypeError outside any \<open>try\<close>. The second \<open>try\<close> holds both
  \<open>new ObjectID(walkerId)\<close> and \<open>User.updateOne\<close>: whatever they throw is caught and
  printed, and the dog is returned. Were \<open>rows\<close> empty, \<open>dog\<close> would be undefined, \<open>dog.id\<close>
  would throw inside that \<open>try\<close>, and undefined would be returned (\<open>None\<close>).
\<close>

definition createDog :: "string \<Rightarrow> string \<Rightarrow> string \<Rightarrow> world \<Rightarrow> (error + dog option) \<times> world" where
  "createDog name b wid w =
     (case dogDB_query (InsertDog name b wid) (dogDB w) of
        (Inl e, db') \<Rightarrow> (Inl TypeError, w\<lparr>dogDB := db'\<rparr>)
      | (Inr data_rows, db') \<Rightarrow>
          (case data_rows of
             [] \<Rightarrow> (Inr None, w\<lparr>dogDB := db'\<rparr>)
           | d # _ \<Rightarrow>
               (case ObjectID wid of
                  None \<Rightarrow> (Inr (Some d), w\<lparr>dogDB := db'\<rparr>)
                | Some oid \<Rightarrow>
                    (case updateOne oid (dog_id d) (userDB w) of
                       (Inl e, m') \<Rightarrow> (Inr (Some d), w\<lparr>userDB := m', dogDB := db'\<rparr>)
                     | (Inr _, m') \<Rightarrow> (Inr (Some d), w\<lparr>userDB := m', dogDB := db'\<rparr>)))))"

text \<open>\<open>Query.users\<close>: \<open>User.find()\<close>, with nothing caught.\<close>

definition Query_users :: "world \<Rightarrow> (error + user list) \<times> world" where
  "Query_users w = (case find_all (userDB w) of (r, m') \<Rightarrow> (r, w\<lparr>userDB := m'\<rparr>))"

text \<open>\<open>Query.dogs\<close>: a failing query is caught and printed, and \<open>[]\<close> is returned.\<close>

definition Query_dogs :: "world \<Rightarrow> (error + dog list) \<times> world" where
  "Query_dogs w =
     (case dogDB_query SelectAllDogs (dogDB w) of
        (Inl e, db') \<Rightarrow> (Inr [], w\<lparr>dogDB := db'\<rparr>)
      | (Inr data_rows, db') \<Rightarrow> (Inr data_rows, w\<lparr>dogDB := db'\<rparr>))"

text \<open>\<open>Dog.walker\<close>: \<open>User.findOne({ dogId: root.id })\<close>, with nothing caught.\<close>

definition Dog_walker :: "bool \<Rightarrow> dog \<Rightarrow> world \<Rightarrow> (error + user option) \<times> world" where
  "Dog_walker strictQuery root w =
     (case findOne strictQuery [(''dogId'', BNum (dog_id root))] (userDB w) of
        (r, m') \<Rightarrow> (r, w\<lparr>userDB := m'\<rparr>))"

text \<open>
  \<open>User.dogs\<close>: with a non-empty \<open>dogIds\<close>, one \<open>SELECT ... WHERE id IN (...)\<close> listing all
  of them, with nothing caught; otherwise \<open>[]\<close>.
\<close>

definition User_dogs :: "user \<Rightarrow> world \<Rightarrow> (error + dog list) \<times> world" where
  "User_dogs root w =
     (if length (dogIds root) \<noteq> 0
      then (case dogDB_query (SelectDogsIn (dogIds root)) (dogDB w) of
              (r, db') \<Rightarrow> (r, w\<lparr>dogDB := db'\<rparr>))
      else (Inr [], w))"

section \<open>Failure of the append, and the ids in use\<close>

text \<open>
  The second step of \<open>createDog\<close> for the dog id \<open>a\<close> fails when \<open>new ObjectID(walkerId)\<close>
  throws or \<open>User.updateOne\<close> rejects.
\<close>

definition append_fails :: "string \<Rightarrow> int \<Rightarrow> world \<Rightarrow> bool" where
  "append_fails wid a w =
     (case ObjectID wid of
        None \<Rightarrow> True
      | Some oid \<Rightarrow> isl (fst (updateOne oid a (userDB w))))"

text \<open>
  Every dog id in the table or in some user's \<open>dogIds\<close> was drawn from the sequence, so it
  lies below the sequence's next value.
\<close>

definition ids_issued :: "world \<Rightarrow> bool" where
  "ids_issued w =
     (list_all (\<lambda>d. dog_id d < next_id (dogDB w)) (rows (dogDB w)) \<and>
      list_all (\<lambda>u. list_all (\<lambda>i. i < next_id (dogDB w)) (dogIds u)) (users (userDB w)))"

section \<open>Runs of the server\<close>

text \<open>
  The availability of the two stores is decided outside the program; \<open>set_avail\<close> is the
  step of the environment that changes it.
\<close>

definition set_avail :: "bool \<Rightarrow> bool \<Rightarrow> world \<Rightarrow> world" where
  "set_avail mu pu w =
     w\<lparr>userDB := (userDB w)\<lparr>mongo_up := mu\<rparr>, dogDB := (dogDB w)\<lparr>pg_up := pu\<rparr>\<rparr>"

text \<open>
  The states the server can be in: from the empty stores, by changes of availability and by
  the two mutations with any arguments and any outcome. The queries and field resolvers
  change nothing but the call logs.
\<close>

inductive reachable :: "world \<Rightarrow> bool" where
  init: "reachable init_world"
| avail: "reachable w \<Longrightarrow> reachable (set_avail mu pu w)"
| user: "reachable w \<Longrightarrow> reachable (snd (createUser oid n w))"
| dog: "reachable w \<Longrightarrow> reachable (snd (createDog n b s w))"

text \<open>
  A string \<open>s\<close> in the column \<open>walkerId\<close> denotes the user \<open>u\<close> when
  \<open>new ObjectID(s)\<close> is the user's \<open>_id\<close>: that is how \<open>createDog\<close> reads it. An
  \<open>_id\<close> is denoted by a row when the \<open>walkerId\<close> of some row of the table denotes it.
  \<open>createDog\<close> stores any \<open>walkerId\<close>, so a row can denote an \<open>_id\<close> that no user has.
\<close>

definition denoted_by_row :: "object_id \<Rightarrow> world \<Rightarrow> bool" where
  "denoted_by_row oid w =
     list_ex (\<lambda>r. case walkerId r of None \<Rightarrow> False | Some s \<Rightarrow> ObjectID s = Some oid)
       (rows (dogDB w))"

text \<open>What \<open>$push\<close> does to one document, on every document of the collection.\<close>

definition push_dog :: "object_id \<Rightarrow> int \<Rightarrow> user \<Rightarrow> user" where
  "push_dog oid a u = (if user_id u = oid then u\<lparr>dogIds := dogIds u @ [a]\<rparr> else u)"

text \<open>
  The runs of the two mutations with two kinds of step left out, and no other: a
  \<open>createDog\<close> whose insert returns the row \<open>d\<close> and whose append of the row's id then
  fails in the write, and a \<open>createUser\<close> that saves a user under an \<open>_id\<close> that a row
  already denotes. Every other step is a rule: a \<open>createUser\<close> whose \<open>save\<close> fails, a
  \<open>createUser\<close> with an \<open>_id\<close> that no row denotes, a \<open>createDog\<close> whose insert fails, a
  \<open>createDog\<close> whose \<open>walkerId\<close> is no ObjectID (no write is sent), and a \<open>createDog\<close>
  whose append succeeds, whether or not a user has that \<open>_id\<close>.
\<close>

inductive reachable_synced :: "world \<Rightarrow> bool" where
  s_init: "reachable_synced init_world"
| s_avail: "reachable_synced w \<Longrightarrow> reachable_synced (set_avail mu pu w)"
| s_user_unsaved: "reachable_synced w \<Longrightarrow>
     fst (save \<lparr>user_id = oid, user_name = n, dogIds = []\<rparr> (userDB w)) = Inl e \<Longrightarrow>
     reachable_synced (snd (createUser oid n w))"
| s_user: "reachable_synced w \<Longrightarrow> \<not> denoted_by_row oid w \<Longrightarrow>
     reachable_synced (snd (createUser oid n w))"
| s_dog_failed: "reachable_synced w \<Longrightarrow>
     fst (dogDB_query (InsertDog n b s) (dogDB w)) = Inl e \<Longrightarrow>
     reachable_synced (snd (createDog n b s w))"
| s_dog_unparsed: "reachable_synced w \<Longrightarrow>
     fst (dogDB_query (InsertDog n b s) (dogDB w)) = Inr [d] \<Longrightarrow>
     ObjectID s = None \<Longrightarrow>
     reachable_synced (snd (createDog n b s w))"
| s_dog: "reachable_synced w \<Longrightarrow>
     fst (dogDB_query (InsertDog n b s) (dogDB w)) = Inr [d] \<Longrightarrow>
     \<not> append_fails s (dog_id d) w \<Longrightarrow>
     reachable_synced (snd (createDog n b s w))"

text \<open>
  Cross-store referential integrity: every row whose \<open>walkerId\<close> denotes a user has its id
  exactly once in that user's \<open>dogIds\<close>.
\<close>

definition integrity :: "world \<Rightarrow> bool" where
  "integrity w =
     list_all
       (\<lambda>r. case walkerId r of
          None \<Rightarrow> True
        | Some s \<Rightarrow>
            list_all
              (\<lambda>u. ObjectID s \<noteq> Some (user_id u) \<or> count_list (dogIds u) (dog_id r) = 1)
              (users (userDB w)))
       (rows (dogDB w))"

section \<open>A sample run\<close>

definition alice_oid :: object_id where
  "alice_oid = ''Alice_000001''"

definition bob_oid :: object_id where
  "bob_oid = ''Bob___000002''"

definition bob_hex :: string where
  "bob_hex = ''426f625f5f5f303030303032''"

definition w_alice :: world where
  "w_alice = snd (createUser alice_oid ''Alice'' init_world)"

definition w_walkers :: world where
  "w_walkers = snd (createUser bob_oid ''Bob'' w_alice)"

definition w_ponzu :: world where
  "w_ponzu = snd (createDog ''Ponzu'' ''Pomeranian'' bob_hex w_walkers)"

definition w_miki :: world where
  "w_miki = snd (createDog ''Miki'' ''Labrador Retriever'' bob_hex w_ponzu)"

definition ponzu :: dog where
  "ponzu = \<lparr>dog_id = 1, dog_name = ''Ponzu'', breed = ''Pomeranian'', walkerId = Some bob_hex\<rparr>"

definition miki :: dog where
  "miki = \<lparr>dog_id = 2, dog_name = ''Miki'', breed = ''Labrador Retriever'', walkerId = Some bob_hex\<rparr>"

definition w_pg_down :: world where
  "w_pg_down = set_avail True False w_walkers"

definition w_mongo_down :: world where
  "w_mongo_down = set_avail False True w_walkers"

definition w_down :: world where
  "w_down = set_avail False False w_miki"

definition carol :: user where
  "carol = \<lparr>user_id = ''Carol_000003'', user_name = ''Carol'', dogIds = []\<rparr>"

definition bob :: user where
  "bob = \<lparr>user_id = bob_oid, user_name = ''Bob'', dogIds = [1, 2]\<rparr>"

definition alice0 :: user where
  "alice0 = \<lparr>user_id = alice_oid, user_name = ''Alice'', dogIds = []\<rparr>"

definition bob0 :: user where
  "bob0 = \<lparr>user_id = bob_oid, user_name = ''Bob'', dogIds = []\<rparr>"

definition w_unsynced :: world where
  "w_unsynced =
     set_avail True True (snd (createDog ''Ponzu'' ''Pomeranian'' bob_hex w_mongo_down))"

definition w_orphan :: world where
  "w_orphan = snd (createDog ''Ponzu'' ''Pomeranian'' bob_hex init_world)"

definition w_late :: world where
  "w_late = snd (createUser bob_oid ''Bob'' w_orphan)"


definition padded_breed :: string where
  "padded_breed = replicate 60 (CHR ''a'') @ '' ''"

definition w_padded :: world where
  "w_padded = snd (createDog ''Ponzu'' padded_breed bob_hex w_walkers)"

definition ponzu60 :: dog where
  "ponzu60 =
     \<lparr>dog_id = 1, dog_name = ''Ponzu'', breed = replicate 60 (CHR ''a''),
      walkerId = Some bob_hex\<rparr>"

section \<open>Facts about the store operations\<close>

text \<open>The hex form of an \<open>_id\<close>, as GraphQL shows it, denotes that \<open>_id\<close>.\<close>

lemma hex_val_hex_digit: "n < 16 \<Longrightarrow> hex_val (hex_digit n) = Some n"
  by (simp add: hex_val_def hex_digit_def Let_def)

lemma createFromHexString_toHexString: "createFromHexString (toHexString oid) = Some oid"
proof (induction oid)
  case Nil
  show ?case by (simp add: toHexString_def)
next
  case (Cons c cs)
  have d: "(of_char c :: nat) div 16 < 16"
    using nat_of_char_less_256[of c] by (simp add: div_less_iff_less_mult)
  have m: "(of_char c :: nat) mod 16 < 16"
    by simp
  have "toHexString (c # cs) =
      hex_digit ((of_char c :: nat) div 16) # hex_digit ((of_char c :: nat) mod 16) # toHexString cs"
    by (simp add: toHexString_def)
  with Cons hex_val_hex_digit[OF d] hex_val_hex_digit[OF m] show ?case
    by simp
qed

lemma length_toHexString: "length (toHexString oid) = 2 * length oid"
  by (induction oid) (simp_all add: toHexString_def)

lemma ObjectID_toHexString: "length oid = 12 \<Longrightarrow> ObjectID (toHexString oid) = Some oid"
  by (simp add: ObjectID_def length_toHexString createFromHexString_toHexString)

lemma insert_ok:
  "pg_up db \<Longrightarrow> varchar_assign 60 b = Some b' \<Longrightarrow>
   dogDB_query (InsertDog n b s) db =
     (Inr [\<lparr>dog_id = next_id db, dog_name = n, breed = b', walkerId = Some s\<rparr>],
      db\<lparr>executed := executed db @ [InsertDog n b s],
         rows := rows db @ [\<lparr>dog_id = next_id db, dog_name = n, breed = b', walkerId = Some s\<rparr>],
         next_id := next_id db + 1\<rparr>)"
  by (simp add: dogDB_query_def pool_query_def Let_def)

lemma insert_down:
  "\<not> pg_up db \<Longrightarrow>
   dogDB_query (InsertDog n b s) db =
     (Inl StoreUnavailable, db\<lparr>executed := executed db @ [InsertDog n b s]\<rparr>)"
  by (simp add: dogDB_query_def pool_query_def)

lemma insert_rejected:
  "pg_up db \<Longrightarrow> varchar_assign 60 b = None \<Longrightarrow>
   dogDB_query (InsertDog n b s) db =
     (Inl WriteRejected, db\<lparr>executed := executed db @ [InsertDog n b s]\<rparr>)"
  by (simp add: dogDB_query_def pool_query_def)

lemma insert_cases:
  obtains (down) "\<not> pg_up db"
  | (rejected) "pg_up db" "varchar_assign 60 b = None"
  | (ok) b' where "pg_up db" "varchar_assign 60 b = Some b'"
  by (cases "pg_up db"; cases "varchar_assign 60 b") auto

lemma createDog_insert_failed:
  assumes "fst (dogDB_query (InsertDog n b s) (dogDB w)) = Inl e"
  shows "createDog n b s w =
           (Inl TypeError,
            w\<lparr>dogDB := (dogDB w)\<lparr>executed := executed (dogDB w) @ [InsertDog n b s]\<rparr>\<rparr>)"
proof (cases rule: insert_cases[where db = "dogDB w" and b = b])
  case down
  then show ?thesis by (simp add: createDog_def insert_down)
next
  case rejected
  then show ?thesis by (simp add: createDog_def insert_rejected)
next
  case (ok b')
  with assms show ?thesis by (simp add: insert_ok)
qed

lemma createDog_inserted:
  assumes "pg_up (dogDB w)" and "varchar_assign 60 b = Some b'"
  shows "createDog n b s w =
    (Inr (Some \<lparr>dog_id = next_id (dogDB w), dog_name = n, breed = b', walkerId = Some s\<rparr>),
     w\<lparr>userDB :=
          (case ObjectID s of
             None \<Rightarrow> userDB w
           | Some oid \<Rightarrow> snd (updateOne oid (next_id (dogDB w)) (userDB w))),
        dogDB :=
          (dogDB w)\<lparr>executed := executed (dogDB w) @ [InsertDog n b s],
            rows := rows (dogDB w) @
              [\<lparr>dog_id = next_id (dogDB w), dog_name = n, breed = b', walkerId = Some s\<rparr>],
            next_id := next_id (dogDB w) + 1\<rparr>\<rparr>)"
  using assms
  by (simp add: createDog_def insert_ok split: option.splits prod.splits sum.splits)

lemma User_dogs_select:
  "dogIds r \<noteq> [] \<Longrightarrow> pg_up (dogDB w) \<Longrightarrow>
     fst (User_dogs r w) = Inr (filter (\<lambda>d. dog_id d \<in> set (dogIds r)) (rows (dogDB w)))"
  by (simp add: User_dogs_def dogDB_query_def pool_query_def split: prod.splits)

lemma no_dogId_path: "\<not> doc_matches (cast_filter False [(''dogId'', v)]) u"
  by (simp add: doc_matches_def cast_filter_def field_matches_def user_doc_def)

lemma cast_dogId_strict: "cast_filter True [(''dogId'', v)] = []"
  by (simp add: cast_filter_def schema_paths_def)

text \<open>
  What \<open>Dog.walker\<close> returns never depends on the dog: nobody when the condition on
  \<open>dogId\<close> reaches the store, the first user of the collection when it is dropped.
\<close>

lemma Dog_walker_lenient:
  "mongo_up (userDB w) \<Longrightarrow> fst (Dog_walker False root w) = Inr None"
  by (simp add: Dog_walker_def findOne_def Let_def find_None_iff no_dogId_path)

lemma Dog_walker_strict:
  "mongo_up (userDB w) \<Longrightarrow>
     fst (Dog_walker True root w) =
       Inr (case users (userDB w) of [] \<Rightarrow> None | u # _ \<Rightarrow> Some u)"
  by (cases "users (userDB w)")
    (simp_all add: Dog_walker_def findOne_def Let_def cast_dogId_strict doc_matches_def)

lemma updateOne_calls:
  "mongo_calls (snd (updateOne oid a m)) = mongo_calls m @ [UpdateOnePush oid a]"
  by (simp add: updateOne_def Let_def)


lemma User_dogs_member:
  assumes "fst (User_dogs u w) = Inr ds" and "d \<in> set ds"
  shows "dog_id d \<in> set (dogIds u) \<and> d \<in> set (rows (dogDB w))"
proof (cases "dogIds u = []")
  case True
  with assms show ?thesis by (simp add: User_dogs_def)
next
  case False
  show ?thesis
  proof (cases "pg_up (dogDB w)")
    case True
    from User_dogs_select[OF False True] assms show ?thesis by auto
  next
    case down: False
    with False assms show ?thesis
      by (simp add: User_dogs_def dogDB_query_def pool_query_def)
  qed
qed

lemma insert_result:
  assumes "fst (dogDB_query (InsertDog n b s) db) = Inr ds"
  shows "pg_up db \<and> (\<exists>b'. varchar_assign 60 b = Some b' \<and>
           ds = [\<lparr>dog_id = next_id db, dog_name = n, breed = b', walkerId = Some s\<rparr>])"
proof (cases rule: insert_cases[where db = db and b = b])
  case down
  with assms show ?thesis by (simp add: insert_down)
next
  case rejected
  with assms show ?thesis by (simp add: insert_rejected)
next
  case (ok b')
  with assms show ?thesis by (simp add: insert_ok)
qed

lemma append_fails_users:
  assumes "append_fails s a w"
  shows "users (case ObjectID s of None \<Rightarrow> userDB w
                | Some oid \<Rightarrow> snd (updateOne oid a (userDB w))) = users (userDB w)"
  using assms
  by (auto simp add: append_fails_def updateOne_def Let_def split: option.splits if_splits)

lemma push_dog_id: "user_id (push_dog oid a u) = user_id u"
  by (simp add: push_dog_def)

lemma map_push_dog_no_match:
  "oid \<notin> set (map user_id us) \<Longrightarrow> map (push_dog oid a) us = us"
  by (induction us) (auto simp add: push_dog_def)

lemma push_first_map:
  "distinct (map user_id us) \<Longrightarrow> push_first oid a us = map (push_dog oid a) us"
proof (induction us)
  case Nil
  then show ?case by simp
next
  case (Cons u us)
  show ?case
  proof (cases "user_id u = oid")
    case True
    with Cons.prems have "oid \<notin> set (map user_id us)"
      by auto
    then have "map (push_dog oid a) us = us"
      by (rule map_push_dog_no_match)
    with True show ?thesis
      by (simp add: push_dog_def[of oid a u])
  next
    case False
    with Cons show ?thesis
      by (simp add: push_dog_def[of oid a u])
  qed
qed

lemma push_first_ids: "map user_id (push_first oid a us) = map user_id us"
  by (induction us) auto

lemma createUser_dogDB: "dogDB (snd (createUser oid n w)) = dogDB w"
  by (simp add: createUser_def save_def Let_def split: prod.splits sum.splits)

lemma createUser_users:
  "users (userDB (snd (createUser oid n w))) =
     (if mongo_up (userDB w) \<and> oid \<notin> set (map user_id (users (userDB w)))
      then users (userDB w) @ [\<lparr>user_id = oid, user_name = n, dogIds = []\<rparr>]
      else users (userDB w))"
  by (simp add: createUser_def save_def Let_def split: prod.splits sum.splits)

lemma updateOne_users:
  "users (snd (updateOne oid a m)) = (if mongo_up m then push_first oid a (users m) else users m)"
  by (simp add: updateOne_def Let_def)

lemma updateOne_up: "mongo_up (snd (updateOne oid a m)) = mongo_up m"
  by (simp add: updateOne_def Let_def)

lemma integrity_iff:
  "integrity w \<longleftrightarrow>
     (\<forall>r \<in> set (rows (dogDB w)). \<forall>s. walkerId r = Some s \<longrightarrow>
        (\<forall>u \<in> set (users (userDB w)). ObjectID s = Some (user_id u) \<longrightarrow>
           count_list (dogIds u) (dog_id r) = 1))"
  by (auto simp add: integrity_def list_all_iff split: option.splits)

lemma ids_issued_iff:
  "ids_issued w \<longleftrightarrow>
     (\<forall>d \<in> set (rows (dogDB w)). dog_id d < next_id (dogDB w)) \<and>
     (\<forall>u \<in> set (users (userDB w)). \<forall>i \<in> set (dogIds u). i < next_id (dogDB w))"
  by (auto simp add: ids_issued_def list_all_iff)

lemma createDog_ok_effect:
  assumes "pg_up (dogDB w)" and "varchar_assign 60 b = Some b'"
  shows "rows (dogDB (snd (createDog n b s w))) =
           rows (dogDB w) @
             [\<lparr>dog_id = next_id (dogDB w), dog_name = n, breed = b', walkerId = Some s\<rparr>]"
    and "next_id (dogDB (snd (createDog n b s w))) = next_id (dogDB w) + 1"
    and "pg_up (dogDB (snd (createDog n b s w)))"
    and "users (userDB (snd (createDog n b s w))) =
           (case ObjectID s of
              None \<Rightarrow> users (userDB w)
            | Some oid \<Rightarrow>
                if mongo_up (userDB w) then push_first oid (next_id (dogDB w)) (users (userDB w))
                else users (userDB w))"
    and "mongo_up (userDB (snd (createDog n b s w))) = mongo_up (userDB w)"
  using assms(1)
  by (simp_all add: createDog_inserted[OF assms] updateOne_users updateOne_up split: option.splits)

lemma createDog_failed_effect:
  assumes "fst (dogDB_query (InsertDog n b s) (dogDB w)) = Inl e"
  shows "rows (dogDB (snd (createDog n b s w))) = rows (dogDB w)"
    and "next_id (dogDB (snd (createDog n b s w))) = next_id (dogDB w)"
    and "users (userDB (snd (createDog n b s w))) = users (userDB w)"
  by (simp_all add: createDog_insert_failed[OF assms])

lemma insert_failed:
  assumes "\<not> pg_up db \<or> varchar_assign 60 b = None"
  shows "\<exists>e. fst (dogDB_query (InsertDog n b s) db) = Inl e"
  using assms by (cases "pg_up db") (auto simp add: insert_down insert_rejected)

lemma push_first_issued:
  assumes "\<forall>u \<in> set us. \<forall>i \<in> set (dogIds u). i < k"
  shows "\<forall>u \<in> set (push_first oid k us). \<forall>i \<in> set (dogIds u). i < k + 1"
  using assms by (induction us) (auto simp add: less_imp_le)

lemma createDog_wf:
  assumes "ids_issued w" and "distinct (map user_id (users (userDB w)))"
  shows "ids_issued (snd (createDog n b s w)) \<and>
         distinct (map user_id (users (userDB (snd (createDog n b s w)))))"
proof (cases rule: insert_cases[where db = "dogDB w" and b = b])
  case down
  then obtain e where "fst (dogDB_query (InsertDog n b s) (dogDB w)) = Inl e"
    using insert_failed by blast
  from createDog_failed_effect[OF this] assms show ?thesis
    by (simp add: ids_issued_def)
next
  case rejected
  then obtain e where "fst (dogDB_query (InsertDog n b s) (dogDB w)) = Inl e"
    using insert_failed by blast
  from createDog_failed_effect[OF this] assms show ?thesis
    by (simp add: ids_issued_def)
next
  case (ok b')
  note eff = createDog_ok_effect[OF ok, of n s]
  let ?k = "next_id (dogDB w)"
  from assms(1) have old: "\<forall>u \<in> set (users (userDB w)). \<forall>i \<in> set (dogIds u). i < ?k"
    and oldr: "\<forall>d \<in> set (rows (dogDB w)). dog_id d < ?k"
    by (simp_all add: ids_issued_iff)
  from old have old': "\<forall>u \<in> set (users (userDB w)). \<forall>i \<in> set (dogIds u). i < ?k + 1"
    by fastforce
  have u: "\<forall>u \<in> set (users (userDB (snd (createDog n b s w)))). \<forall>i \<in> set (dogIds u). i < ?k + 1"
    using old' push_first_issued[OF old] by (simp add: eff(4) split: option.splits)
  have r: "\<forall>d \<in> set (rows (dogDB (snd (createDog n b s w)))). dog_id d < ?k + 1"
    using oldr by (auto simp add: eff(1))
  have d: "distinct (map user_id (users (userDB (snd (createDog n b s w)))))"
    using assms(2) by (simp add: eff(4) push_first_ids split: option.splits)
  from u r d show ?thesis
    by (simp add: ids_issued_iff eff(2))
qed

lemma createUser_wf:
  assumes "ids_issued w" and "distinct (map user_id (users (userDB w)))"
  shows "ids_issued (snd (createUser oid n w)) \<and>
         distinct (map user_id (users (userDB (snd (createUser oid n w)))))"
  using assms by (simp add: ids_issued_def createUser_users createUser_dogDB)

lemma set_avail_same:
  "rows (dogDB (set_avail mu pu w)) = rows (dogDB w)"
  "next_id (dogDB (set_avail mu pu w)) = next_id (dogDB w)"
  "users (userDB (set_avail mu pu w)) = users (userDB w)"
  by (simp_all add: set_avail_def)

lemma reachable_wf:
  "reachable w \<Longrightarrow> ids_issued w \<and> distinct (map user_id (users (userDB w)))"
proof (induction rule: reachable.induct)
  case init
  show ?case by (simp add: init_world_def ids_issued_def)
next
  case (avail w mu pu)
  then show ?case by (simp add: ids_issued_def set_avail_same)
next
  case (user w oid n)
  then show ?case using createUser_wf by blast
next
  case (dog w n b s)
  then show ?case using createDog_wf by blast
qed

lemma reachable_synced_reachable: "reachable_synced w \<Longrightarrow> reachable w"
  by (induction rule: reachable_synced.induct) (auto intro: reachable.intros)

lemma createUser_integrity:
  assumes int: "integrity w" and und: "\<not> denoted_by_row oid w"
  shows "integrity (snd (createUser oid n w))"
proof -
  have new: "ObjectID s \<noteq> Some oid"
    if "r \<in> set (rows (dogDB w))" and "walkerId r = Some s" for r s
    using und that by (auto simp add: denoted_by_row_def list_ex_iff split: option.splits)
  from int new show ?thesis
    unfolding integrity_iff createUser_users createUser_dogDB
    by (auto split: if_splits)
qed

lemma createUser_unsaved_users:
  assumes "fst (save \<lparr>user_id = oid, user_name = n, dogIds = []\<rparr> (userDB w)) = Inl e"
  shows "users (userDB (snd (createUser oid n w))) = users (userDB w)"
  using assms
  by (auto simp add: createUser_def save_def Let_def split: prod.splits sum.splits if_splits)

lemma createUser_unsaved_integrity:
  assumes "integrity w"
    and "fst (save \<lparr>user_id = oid, user_name = n, dogIds = []\<rparr> (userDB w)) = Inl e"
  shows "integrity (snd (createUser oid n w))"
  using assms(1) by (simp add: integrity_iff createUser_unsaved_users[OF assms(2)] createUser_dogDB)

text \<open>
  The step left out is the one that breaks integrity: saving a user under an \<open>_id\<close> that
  a row denotes always does.
\<close>

lemma createUser_denoted_breaks:
  assumes den: "denoted_by_row oid w"
    and saved: "fst (save \<lparr>user_id = oid, user_name = n, dogIds = []\<rparr> (userDB w)) = Inr x"
  shows "\<not> integrity (snd (createUser oid n w))"
proof -
  let ?u = "\<lparr>user_id = oid, user_name = n, dogIds = []\<rparr>"
  from den obtain r s where r: "r \<in> set (rows (dogDB w))" and ws: "walkerId r = Some s"
    and os: "ObjectID s = Some oid"
    by (auto simp add: denoted_by_row_def list_ex_iff split: option.splits)
  from saved have "mongo_up (userDB w) \<and> oid \<notin> set (map user_id (users (userDB w)))"
    by (auto simp add: save_def Let_def split: if_splits)
  then have us: "users (userDB (snd (createUser oid n w))) = users (userDB w) @ [?u]"
    by (simp add: createUser_users)
  show ?thesis
  proof
    assume "integrity (snd (createUser oid n w))"
    with r ws os have "count_list (dogIds ?u) (dog_id r) = 1"
      unfolding integrity_iff us createUser_dogDB by auto
    then show False by simp
  qed
qed

lemma createDog_integrity:
  assumes int: "integrity w"
    and iss: "ids_issued w"
    and dist: "distinct (map user_id (users (userDB w)))"
    and ins: "fst (dogDB_query (InsertDog n b s) (dogDB w)) = Inr [d]"
    and app: "\<not> append_fails s (dog_id d) w"
  shows "integrity (snd (createDog n b s w))"
proof -
  let ?k = "next_id (dogDB w)"
  let ?w' = "snd (createDog n b s w)"
  from insert_result[OF ins] obtain b' where up: "pg_up (dogDB w)"
    and vb: "varchar_assign 60 b = Some b'"
    and d: "d = \<lparr>dog_id = ?k, dog_name = n, breed = b', walkerId = Some s\<rparr>"
    by auto
  note eff = createDog_ok_effect[OF up vb, of n s]
  from app obtain oid where oid: "ObjectID s = Some oid" and mu: "mongo_up (userDB w)"
    by (auto simp add: append_fails_def updateOne_def Let_def split: option.splits if_splits)
  have us': "users (userDB ?w') = map (push_dog oid ?k) (users (userDB w))"
    by (simp add: eff(4) oid mu push_first_map[OF dist])
  have rs': "rows (dogDB ?w') = rows (dogDB w) @ [d]"
    by (simp add: eff(1) d)
  from iss have old: "\<forall>u \<in> set (users (userDB w)). \<forall>i \<in> set (dogIds u). i < ?k"
    and oldr: "\<forall>d \<in> set (rows (dogDB w)). dog_id d < ?k"
    by (simp_all add: ids_issued_iff)
  have goal: "count_list (dogIds (push_dog oid ?k u)) (dog_id r) = 1"
    if r: "r \<in> set (rows (dogDB w) @ [d])" and ws: "walkerId r = Some t"
      and u: "u \<in> set (users (userDB w))"
      and den: "ObjectID t = Some (user_id (push_dog oid ?k u))" for r t u
  proof (cases "r \<in> set (rows (dogDB w))")
    case True
    with oldr have lt: "dog_id r \<noteq> ?k"
      by fastforce
    from den have "ObjectID t = Some (user_id u)"
      by (simp add: push_dog_id)
    with int True ws u have "count_list (dogIds u) (dog_id r) = 1"
      by (simp add: integrity_iff)
    with lt show ?thesis
      by (simp add: push_dog_def)
  next
    case False
    with r have rd: "r = d" by simp
    with ws d have "t = s" by simp
    with den oid have uo: "user_id u = oid"
      by (simp add: push_dog_id)
    from old u have "?k \<notin> set (dogIds u)"
      by fastforce
    then have "count_list (dogIds u) ?k = 0"
      by (simp add: count_list_0_iff)
    with uo rd d show ?thesis
      by (simp add: push_dog_def)
  qed
  show ?thesis
    unfolding integrity_iff us' rs' using goal by auto
qed

lemma createDog_unparsed_integrity:
  assumes int: "integrity w"
    and ins: "fst (dogDB_query (InsertDog n b s) (dogDB w)) = Inr [d]"
    and un: "ObjectID s = None"
  shows "integrity (snd (createDog n b s w))"
proof -
  from insert_result[OF ins] obtain b' where up: "pg_up (dogDB w)"
    and vb: "varchar_assign 60 b = Some b'"
    and d: "d = \<lparr>dog_id = next_id (dogDB w), dog_name = n, breed = b', walkerId = Some s\<rparr>"
    by auto
  note eff = createDog_ok_effect[OF up vb, of n s]
  have us': "users (userDB (snd (createDog n b s w))) = users (userDB w)"
    by (simp add: eff(4) un)
  have rs': "rows (dogDB (snd (createDog n b s w))) = rows (dogDB w) @ [d]"
    by (simp add: eff(1) d)
  from int un show ?thesis
    unfolding integrity_iff us' rs' by (auto simp add: d)
qed

lemma createDog_failed_integrity:
  assumes "integrity w" and "fst (dogDB_query (InsertDog n b s) (dogDB w)) = Inl e"
  shows "integrity (snd (createDog n b s w))"
  using assms(1) by (simp add: integrity_iff createDog_failed_effect[OF assms(2)])

lemma reachable_synced_integrity: "reachable_synced w \<Longrightarrow> integrity w"
proof (induction rule: reachable_synced.induct)
  case s_init
  show ?case by (simp add: init_world_def integrity_def)
next
  case (s_avail w mu pu)
  then show ?case by (simp add: integrity_iff set_avail_same)
next
  case (s_user_unsaved w oid n e)
  then show ?case by (simp add: createUser_unsaved_integrity)
next
  case (s_user w oid n)
  then show ?case by (simp add: createUser_integrity)
next
  case (s_dog_failed w n b s e)
  then show ?case by (simp add: createDog_failed_integrity)
next
  case (s_dog_unparsed w n b s d)
  then show ?case by (simp add: createDog_unparsed_integrity)
next
  case (s_dog w n b s d)
  from reachable_wf[OF reachable_synced_reachable[OF s_dog.hyps(1)]]
  have "ids_issued w" and "distinct (map user_id (users (userDB w)))"
    by simp_all
  with s_dog show ?case
    by (simp add: createDog_integrity)
qed

lemma varchar_assign_take: "varchar_assign 60 b = Some b' \<Longrightarrow> b' = take 60 b"
  by (auto simp add: varchar_assign_def split: if_splits)

lemma Query_dogs_up: "pg_up (dogDB w) \<Longrightarrow> fst (Query_dogs w) = Inr (rows (dogDB w))"
  by (simp add: Query_dogs_def dogDB_query_def pool_query_def)

lemma Query_users_up: "mongo_up (userDB w) \<Longrightarrow> fst (Query_users w) = Inr (users (userDB w))"
  by (simp add: Query_users_def find_all_def Let_def)

lemma bob_hex_oid: "ObjectID bob_hex = Some bob_oid"
  by code_simp

lemma w_miki_rows: "rows (dogDB w_miki) = [ponzu, miki]"
  by code_simp

lemma w_miki_pg_up: "pg_up (dogDB w_miki)"
  by code_simp

lemma w_miki_mongo_up: "mongo_up (userDB w_miki)"
  by code_simp

lemma w_miki_users:
  "users (userDB w_miki) =
     [\<lparr>user_id = alice_oid, user_name = ''Alice'', dogIds = []\<rparr>,
      \<lparr>user_id = bob_oid, user_name = ''Bob'', dogIds = [1, 2]\<rparr>]"
  by code_simp

lemma w_miki_synced: "reachable_synced w_miki"
proof -
  have a: "reachable_synced w_alice"
    unfolding w_alice_def
  proof (rule reachable_synced.s_user[OF reachable_synced.s_init])
    show "\<not> denoted_by_row alice_oid init_world" by code_simp
  qed
  have b: "reachable_synced w_walkers"
    unfolding w_walkers_def
  proof (rule reachable_synced.s_user[OF a])
    show "\<not> denoted_by_row bob_oid w_alice" by code_simp
  qed
  have p: "reachable_synced w_ponzu"
    unfolding w_ponzu_def
  proof (rule reachable_synced.s_dog[OF b])
    show "fst (dogDB_query (InsertDog ''Ponzu'' ''Pomeranian'' bob_hex) (dogDB w_walkers)) =
        Inr [ponzu]"
      by code_simp
    show "\<not> append_fails bob_hex (dog_id ponzu) w_walkers"
      by code_simp
  qed
  show ?thesis
    unfolding w_miki_def
  proof (rule reachable_synced.s_dog[OF p])
    show "fst (dogDB_query (InsertDog ''Miki'' ''Labrador Retriever'' bob_hex) (dogDB w_ponzu)) =
        Inr [miki]"
      by code_simp
    show "\<not> append_fails bob_hex (dog_id miki) w_ponzu"
      by code_simp
  qed
qed

section \<open>Resolving \<open>User.dogs\<close>\<close>

text \<open>
  Claim C5. A walker whose \<open>dogIds\<close> is empty resolves \<open>dogs\<close> to the empty list and leaves
  both stores as they were, so no statement reaches the relational store. A walker with a
  non-empty \<open>dogIds\<close> adds exactly one statement to those the relational store has executed,
  and that statement carries the whole of \<open>dogIds\<close>.
\<close>

theorem User_dogs_store_calls:
  "(dogIds root = [] \<longrightarrow>
      fst (User_dogs root w) = Inr [] \<and> snd (User_dogs root w) = w) \<and>
   (dogIds root \<noteq> [] \<longrightarrow>
      executed (dogDB (snd (User_dogs root w))) =
        executed (dogDB w) @ [SelectDogsIn (dogIds root)])"
  by (simp add: User_dogs_def dogDB_query_def pool_query_def split: prod.splits)

theorem User_dogs_store_calls_witness:
  "dogIds \<lparr>user_id = alice_oid, user_name = ''Alice'', dogIds = []\<rparr> = [] \<and>
   fst (User_dogs \<lparr>user_id = alice_oid, user_name = ''Alice'', dogIds = []\<rparr> w_miki) = Inr [] \<and>
   snd (User_dogs \<lparr>user_id = alice_oid, user_name = ''Alice'', dogIds = []\<rparr> w_miki) = w_miki \<and>
   dogIds \<lparr>user_id = bob_oid, user_name = ''Bob'', dogIds = [1, 2]\<rparr> \<noteq> [] \<and>
   executed (dogDB (snd (User_dogs \<lparr>user_id = bob_oid, user_name = ''Bob'', dogIds = [1, 2]\<rparr> w_miki))) =
     executed (dogDB w_miki) @ [SelectDogsIn [1, 2]]"
  using User_dogs_store_calls [of "\<lparr>user_id = alice_oid, user_name = ''Alice'', dogIds = []\<rparr>" w_miki]
    User_dogs_store_calls [of "\<lparr>user_id = bob_oid, user_name = ''Bob'', dogIds = [1, 2]\<rparr>" w_miki]
  by simp

text \<open>
  Claim C9. For a walker with a non-empty \<open>dogIds\<close>, the resolved \<open>dogs\<close> are the rows of
  the table whose id occurs in \<open>dogIds\<close>, in the order of the table: a subsequence of the
  table, the same for every arrangement of the same ids in \<open>dogIds\<close>.
\<close>

theorem User_dogs_natural_order:
  assumes "dogIds root \<noteq> []" and "pg_up (dogDB w)"
  shows "\<exists>ds. fst (User_dogs root w) = Inr ds \<and>
           ds = filter (\<lambda>d. dog_id d \<in> set (dogIds root)) (rows (dogDB w)) \<and>
           subseq ds (rows (dogDB w)) \<and>
           (\<forall>root'. set (dogIds root') = set (dogIds root) \<longrightarrow>
              fst (User_dogs root' w) = Inr ds)"
proof -
  let ?ds = "filter (\<lambda>d. dog_id d \<in> set (dogIds root)) (rows (dogDB w))"
  have a: "fst (User_dogs root w) = Inr ?ds"
    by (rule User_dogs_select[OF assms])
  have b: "subseq ?ds (rows (dogDB w))"
    by (rule subseq_filter_left)
  have c: "fst (User_dogs root' w) = Inr ?ds"
    if eq: "set (dogIds root') = set (dogIds root)" for root'
  proof -
    from eq assms(1) have "dogIds root' \<noteq> []"
      by (metis set_empty)
    from User_dogs_select[OF this assms(2)] eq show ?thesis
      by simp
  qed
  from a b c show ?thesis by blast
qed

theorem User_dogs_natural_order_witness:
  "dogIds \<lparr>user_id = bob_oid, user_name = ''Bob'', dogIds = [2, 1]\<rparr> \<noteq> [] \<and>
   pg_up (dogDB w_miki) \<and>
   fst (User_dogs \<lparr>user_id = bob_oid, user_name = ''Bob'', dogIds = [2, 1]\<rparr> w_miki) =
     Inr [ponzu, miki]"
proof -
  let ?root = "\<lparr>user_id = bob_oid, user_name = ''Bob'', dogIds = [2, 1]\<rparr>"
  have h1: "dogIds ?root \<noteq> []"
    by simp
  from User_dogs_natural_order[OF h1 w_miki_pg_up]
  have "fst (User_dogs ?root w_miki) =
          Inr (filter (\<lambda>d. dog_id d \<in> set (dogIds ?root)) (rows (dogDB w_miki)))"
    by blast
  then have "fst (User_dogs ?root w_miki) = Inr [ponzu, miki]"
    by (simp add: w_miki_rows ponzu_def miki_def)
  with h1 w_miki_pg_up show ?thesis
    by blast
qed

section \<open>Resolving \<open>Dog.walker\<close>\<close>

text \<open>
  Claim C10. When the store answers and no user document satisfies the filter of the
  lookup, \<open>Dog.walker\<close> returns null: the resolver returns \<open>None\<close> and raises no error.
\<close>

theorem Dog_walker_no_match_null:
  assumes "mongo_up (userDB w)"
    and "\<forall>u \<in> set (users (userDB w)).
           \<not> doc_matches (cast_filter strictQuery [(''dogId'', BNum (dog_id root))]) u"
  shows "fst (Dog_walker strictQuery root w) = Inr None"
  using assms by (simp add: Dog_walker_def findOne_def find_None_iff split: prod.splits)

theorem Dog_walker_no_match_null_witness:
  "mongo_up (userDB w_miki) \<and>
   list_all (\<lambda>u. \<not> doc_matches (cast_filter False [(''dogId'', BNum (dog_id ponzu))]) u)
     (users (userDB w_miki)) \<and>
   fst (Dog_walker False ponzu w_miki) = Inr None"
proof -
  have h: "\<forall>u \<in> set (users (userDB w_miki)).
             \<not> doc_matches (cast_filter False [(''dogId'', BNum (dog_id ponzu))]) u"
    by (simp add: no_dogId_path)
  from Dog_walker_no_match_null[OF w_miki_mongo_up h] w_miki_mongo_up h show ?thesis
    by (simp add: list_all_iff)
qed

section \<open>\<open>Mutation.createDog\<close>: the insert and the append\<close>

text \<open>
  Claim C8. When the insert fails, \<open>createDog\<close> fails as a whole and the document store is
  exactly as before: no call reached it and no row was added. Whenever \<open>createDog\<close> does
  send a call to the document store, the insert has returned the new row, the row is in the
  table, and the one call sent is the append of that row's id.
\<close>

theorem createDog_sync_after_insert:
  "(\<forall>e. fst (dogDB_query (InsertDog n b s) (dogDB w)) = Inl e \<longrightarrow>
      fst (createDog n b s w) = Inl TypeError \<and>
      userDB (snd (createDog n b s w)) = userDB w \<and>
      rows (dogDB (snd (createDog n b s w))) = rows (dogDB w)) \<and>
   (mongo_calls (userDB (snd (createDog n b s w))) \<noteq> mongo_calls (userDB w) \<longrightarrow>
      (\<exists>d oid. fst (dogDB_query (InsertDog n b s) (dogDB w)) = Inr [d] \<and>
         d \<in> set (rows (dogDB (snd (createDog n b s w)))) \<and>
         ObjectID s = Some oid \<and>
         mongo_calls (userDB (snd (createDog n b s w))) =
           mongo_calls (userDB w) @ [UpdateOnePush oid (dog_id d)]))"
proof (intro conjI allI impI)
  fix e assume f: "fst (dogDB_query (InsertDog n b s) (dogDB w)) = Inl e"
  show "fst (createDog n b s w) = Inl TypeError"
    by (simp add: createDog_insert_failed[OF f])
  show "userDB (snd (createDog n b s w)) = userDB w"
    by (simp add: createDog_insert_failed[OF f])
  show "rows (dogDB (snd (createDog n b s w))) = rows (dogDB w)"
    by (simp add: createDog_insert_failed[OF f])
next
  assume c: "mongo_calls (userDB (snd (createDog n b s w))) \<noteq> mongo_calls (userDB w)"
  show "\<exists>d oid. fst (dogDB_query (InsertDog n b s) (dogDB w)) = Inr [d] \<and>
         d \<in> set (rows (dogDB (snd (createDog n b s w)))) \<and>
         ObjectID s = Some oid \<and>
         mongo_calls (userDB (snd (createDog n b s w))) =
           mongo_calls (userDB w) @ [UpdateOnePush oid (dog_id d)]"
  proof (cases rule: insert_cases[where db = "dogDB w" and b = b])
    case down
    then have "fst (dogDB_query (InsertDog n b s) (dogDB w)) = Inl StoreUnavailable"
      by (simp add: insert_down)
    from createDog_insert_failed[OF this] c show ?thesis by simp
  next
    case rejected
    then have "fst (dogDB_query (InsertDog n b s) (dogDB w)) = Inl WriteRejected"
      by (simp add: insert_rejected)
    from createDog_insert_failed[OF this] c show ?thesis by simp
  next
    case (ok b')
    note ins = createDog_inserted[OF ok, of n s]
    from c ins obtain oid where oid: "ObjectID s = Some oid"
      by (cases "ObjectID s") auto
    show ?thesis
      using ok oid by (simp add: ins insert_ok updateOne_calls)
  qed
qed


theorem createDog_sync_after_insert_witness:
  "fst (dogDB_query (InsertDog ''Ponzu'' ''Pomeranian'' bob_hex) (dogDB w_pg_down)) =
     Inl StoreUnavailable \<and>
   fst (createDog ''Ponzu'' ''Pomeranian'' bob_hex w_pg_down) = Inl TypeError \<and>
   userDB (snd (createDog ''Ponzu'' ''Pomeranian'' bob_hex w_pg_down)) = userDB w_pg_down \<and>
   mongo_calls (userDB (snd (createDog ''Ponzu'' ''Pomeranian'' bob_hex w_walkers))) \<noteq>
     mongo_calls (userDB w_walkers) \<and>
   fst (dogDB_query (InsertDog ''Ponzu'' ''Pomeranian'' bob_hex) (dogDB w_walkers)) = Inr [ponzu] \<and>
   mongo_calls (userDB (snd (createDog ''Ponzu'' ''Pomeranian'' bob_hex w_walkers))) =
     mongo_calls (userDB w_walkers) @ [UpdateOnePush bob_oid 1]"
proof -
  have h1: "fst (dogDB_query (InsertDog ''Ponzu'' ''Pomeranian'' bob_hex) (dogDB w_pg_down)) =
     Inl StoreUnavailable"
    by code_simp
  have h2: "mongo_calls (userDB (snd (createDog ''Ponzu'' ''Pomeranian'' bob_hex w_walkers))) \<noteq>
     mongo_calls (userDB w_walkers)"
    by code_simp
  have c1: "fst (createDog ''Ponzu'' ''Pomeranian'' bob_hex w_pg_down) = Inl TypeError \<and>
      userDB (snd (createDog ''Ponzu'' ''Pomeranian'' bob_hex w_pg_down)) = userDB w_pg_down"
    using createDog_sync_after_insert[of "''Ponzu''" "''Pomeranian''" bob_hex w_pg_down] h1
    by simp
  have q: "fst (dogDB_query (InsertDog ''Ponzu'' ''Pomeranian'' bob_hex) (dogDB w_walkers)) = Inr [ponzu]"
    by code_simp
  have c2: "mongo_calls (userDB (snd (createDog ''Ponzu'' ''Pomeranian'' bob_hex w_walkers))) =
     mongo_calls (userDB w_walkers) @ [UpdateOnePush bob_oid 1]"
    using createDog_sync_after_insert[of "''Ponzu''" "''Pomeranian''" bob_hex w_walkers] h2
    by (auto simp add: q bob_hex_oid ponzu_def)
  from h1 h2 c1 q c2 show ?thesis by simp
qed





text \<open>
  Claim C2, as stated, fails in its last part. With the document store down, the insert of
  Ponzu succeeds, the append fails, and \<open>createDog\<close> returns the dog: the caller sees a
  success.
\<close>

theorem createDog_append_failure_counterexample:
  "fst (dogDB_query (InsertDog ''Ponzu'' ''Pomeranian'' bob_hex) (dogDB w_mongo_down)) = Inr [ponzu] \<and>
   append_fails bob_hex (dog_id ponzu) w_mongo_down \<and>
   fst (createDog ''Ponzu'' ''Pomeranian'' bob_hex w_mongo_down) = Inr (Some ponzu) \<and>
   \<not> isl (fst (createDog ''Ponzu'' ''Pomeranian'' bob_hex w_mongo_down))"
  by code_simp

text \<open>
  Claim C2, amended. When the insert succeeds and the append fails, the new row is in the
  table, the users are as before, no user's \<open>dogIds\<close> holds the new id, no user's \<open>dogs\<close>
  resolves to a list with the new dog, and \<open>createDog\<close> returns the dog as a success.
\<close>

theorem createDog_append_failure:
  assumes ins: "fst (dogDB_query (InsertDog n b s) (dogDB w)) = Inr [d]"
    and app: "append_fails s (dog_id d) w"
    and inv: "ids_issued w"
  shows "fst (createDog n b s w) = Inr (Some d) \<and>
         d \<in> set (rows (dogDB (snd (createDog n b s w)))) \<and>
         d \<notin> set (rows (dogDB w)) \<and>
         users (userDB (snd (createDog n b s w))) = users (userDB w) \<and>
         (\<forall>u \<in> set (users (userDB (snd (createDog n b s w)))).
            dog_id d \<notin> set (dogIds u) \<and>
            (\<forall>ds. fst (User_dogs u (snd (createDog n b s w))) = Inr ds \<longrightarrow> d \<notin> set ds))"
proof -
  let ?w' = "snd (createDog n b s w)"
  from insert_result[OF ins] obtain b' where up: "pg_up (dogDB w)"
    and vb: "varchar_assign 60 b = Some b'"
    and d: "d = \<lparr>dog_id = next_id (dogDB w), dog_name = n, breed = b', walkerId = Some s\<rparr>"
    by auto
  note cd = createDog_inserted[OF up vb, of n s]
  have id: "dog_id d = next_id (dogDB w)"
    by (simp add: d)
  have r1: "fst (createDog n b s w) = Inr (Some d)"
    by (simp add: cd d)
  have r2: "d \<in> set (rows (dogDB ?w'))"
    by (simp add: cd d)
  have r3: "d \<notin> set (rows (dogDB w))"
  proof
    assume "d \<in> set (rows (dogDB w))"
    with inv have "dog_id d < next_id (dogDB w)"
      by (auto simp add: ids_issued_def list_all_iff)
    with id show False by simp
  qed
  have r4: "users (userDB ?w') = users (userDB w)"
    using append_fails_users[OF app] unfolding id by (simp add: cd)
  have r5: "dog_id d \<notin> set (dogIds u)" if "u \<in> set (users (userDB ?w'))" for u
  proof
    assume "dog_id d \<in> set (dogIds u)"
    with that r4 inv have "dog_id d < next_id (dogDB w)"
      by (auto simp add: ids_issued_def list_all_iff)
    with id show False by simp
  qed
  have r6: "d \<notin> set ds"
    if "u \<in> set (users (userDB ?w'))" and "fst (User_dogs u ?w') = Inr ds" for u ds
    using User_dogs_member[OF that(2)] r5[OF that(1)] by blast
  from r1 r2 r3 r4 r5 r6 show ?thesis by blast
qed


theorem createDog_append_failure_witness:
  "fst (dogDB_query (InsertDog ''Ponzu'' ''Pomeranian'' bob_hex) (dogDB w_mongo_down)) = Inr [ponzu] \<and>
   append_fails bob_hex (dog_id ponzu) w_mongo_down \<and>
   ids_issued w_mongo_down \<and>
   fst (createDog ''Ponzu'' ''Pomeranian'' bob_hex w_mongo_down) = Inr (Some ponzu) \<and>
   ponzu \<in> set (rows (dogDB (snd (createDog ''Ponzu'' ''Pomeranian'' bob_hex w_mongo_down)))) \<and>
   users (userDB (snd (createDog ''Ponzu'' ''Pomeranian'' bob_hex w_mongo_down))) =
     users (userDB w_mongo_down)"
proof -
  have h1: "fst (dogDB_query (InsertDog ''Ponzu'' ''Pomeranian'' bob_hex) (dogDB w_mongo_down)) =
      Inr [ponzu]"
    by code_simp
  have h2: "append_fails bob_hex (dog_id ponzu) w_mongo_down"
    by code_simp
  have h3: "ids_issued w_mongo_down"
    by code_simp
  from createDog_append_failure[OF h1 h2 h3] h1 h2 h3 show ?thesis
    by blast
qed

section \<open>What a failing store call becomes\<close>

text \<open>
  Claim C3, as stated, fails. With both stores down, \<open>createUser\<close> returns the user that
  was not saved, and \<open>Query.dogs\<close> returns the empty list although the table has two rows.
\<close>

theorem store_failure_counterexample:
  "fst (save carol (userDB w_down)) = Inl StoreUnavailable \<and>
   fst (createUser (user_id carol) (user_name carol) w_down) = Inr carol \<and>
   carol \<notin> set (users (userDB (snd (createUser (user_id carol) (user_name carol) w_down)))) \<and>
   fst (dogDB_query SelectAllDogs (dogDB w_down)) = Inl StoreUnavailable \<and>
   rows (dogDB w_down) = [ponzu, miki] \<and>
   fst (Query_dogs w_down) = Inr []"
  by code_simp

text \<open>
  Claim C3, amended. A failing store call is raised to the caller by \<open>Query.users\<close>,
  \<open>Dog.walker\<close> and \<open>User.dogs\<close>, with the store's own error, and by \<open>createDog\<close> when
  its insert fails, as a TypeError. It is caught, and a normal value is returned, by
  \<open>createUser\<close> (the user object, not saved), by \<open>Query.dogs\<close> (the empty list) and by
  \<open>createDog\<close> when its append fails (the dog).
\<close>

theorem store_failure_handling:
  "(fst (find_all (userDB w)) = Inl e \<longrightarrow> fst (Query_users w) = Inl e) \<and>
   (fst (findOne sq [(''dogId'', BNum (dog_id root))] (userDB w)) = Inl e \<longrightarrow>
      fst (Dog_walker sq root w) = Inl e) \<and>
   (dogIds u \<noteq> [] \<and> fst (dogDB_query (SelectDogsIn (dogIds u)) (dogDB w)) = Inl e \<longrightarrow>
      fst (User_dogs u w) = Inl e) \<and>
   (fst (dogDB_query (InsertDog n b s) (dogDB w)) = Inl e \<longrightarrow>
      fst (createDog n b s w) = Inl TypeError) \<and>
   (fst (save \<lparr>user_id = oid, user_name = un, dogIds = []\<rparr> (userDB w)) = Inl e \<longrightarrow>
      fst (createUser oid un w) = Inr \<lparr>user_id = oid, user_name = un, dogIds = []\<rparr> \<and>
      users (userDB (snd (createUser oid un w))) = users (userDB w)) \<and>
   (fst (dogDB_query SelectAllDogs (dogDB w)) = Inl e \<longrightarrow> fst (Query_dogs w) = Inr []) \<and>
   (fst (dogDB_query (InsertDog n b s) (dogDB w)) = Inr [d] \<and> append_fails s (dog_id d) w \<longrightarrow>
      fst (createDog n b s w) = Inr (Some d))"
proof (intro conjI impI)
  assume "fst (find_all (userDB w)) = Inl e"
  then show "fst (Query_users w) = Inl e"
    by (cases "find_all (userDB w)") (simp add: Query_users_def)
next
  assume "fst (findOne sq [(''dogId'', BNum (dog_id root))] (userDB w)) = Inl e"
  then show "fst (Dog_walker sq root w) = Inl e"
    by (cases "findOne sq [(''dogId'', BNum (dog_id root))] (userDB w)") (simp add: Dog_walker_def)
next
  assume "dogIds u \<noteq> [] \<and> fst (dogDB_query (SelectDogsIn (dogIds u)) (dogDB w)) = Inl e"
  then show "fst (User_dogs u w) = Inl e"
    by (cases "dogDB_query (SelectDogsIn (dogIds u)) (dogDB w)") (simp add: User_dogs_def)
next
  assume "fst (dogDB_query (InsertDog n b s) (dogDB w)) = Inl e"
  from createDog_insert_failed[OF this] show "fst (createDog n b s w) = Inl TypeError"
    by simp
next
  assume f: "fst (save \<lparr>user_id = oid, user_name = un, dogIds = []\<rparr> (userDB w)) = Inl e"
  show "fst (createUser oid un w) = Inr \<lparr>user_id = oid, user_name = un, dogIds = []\<rparr>"
    by (simp add: createUser_def Let_def split: prod.splits sum.splits)
  from f show "users (userDB (snd (createUser oid un w))) = users (userDB w)"
    by (auto simp add: createUser_def save_def Let_def split: prod.splits sum.splits if_splits)
next
  assume "fst (dogDB_query SelectAllDogs (dogDB w)) = Inl e"
  then show "fst (Query_dogs w) = Inr []"
    by (cases "dogDB_query SelectAllDogs (dogDB w)") (simp add: Query_dogs_def)
next
  assume a: "fst (dogDB_query (InsertDog n b s) (dogDB w)) = Inr [d] \<and> append_fails s (dog_id d) w"
  from insert_result[of n b s "dogDB w" "[d]"] a obtain b' where up: "pg_up (dogDB w)"
    and vb: "varchar_assign 60 b = Some b'"
    and d: "d = \<lparr>dog_id = next_id (dogDB w), dog_name = n, breed = b', walkerId = Some s\<rparr>"
    by auto
  show "fst (createDog n b s w) = Inr (Some d)"
    by (simp add: createDog_inserted[OF up vb] d)
qed

theorem store_failure_handling_witness:
  "fst (find_all (userDB w_down)) = Inl StoreUnavailable \<and>
   fst (Query_users w_down) = Inl StoreUnavailable \<and>
   fst (Dog_walker False ponzu w_down) = Inl StoreUnavailable \<and>
   fst (User_dogs \<lparr>user_id = bob_oid, user_name = ''Bob'', dogIds = [1, 2]\<rparr> w_down) =
     Inl StoreUnavailable \<and>
   fst (createDog ''Jetta'' ''Mixed/Mutt'' bob_hex w_down) = Inl TypeError \<and>
   fst (createUser (user_id carol) (user_name carol) w_down) = Inr carol \<and>
   fst (Query_dogs w_down) = Inr [] \<and>
   append_fails bob_hex (dog_id ponzu) w_mongo_down \<and>
   fst (createDog ''Ponzu'' ''Pomeranian'' bob_hex w_mongo_down) = Inr (Some ponzu)"
proof -
  let ?bob = "\<lparr>user_id = bob_oid, user_name = ''Bob'', dogIds = [1, 2]\<rparr>"
  have h1: "fst (find_all (userDB w_down)) = Inl StoreUnavailable"
    by code_simp
  have h2: "fst (findOne False [(''dogId'', BNum (dog_id ponzu))] (userDB w_down)) =
      Inl StoreUnavailable"
    by code_simp
  have h3: "dogIds ?bob \<noteq> [] \<and>
      fst (dogDB_query (SelectDogsIn (dogIds ?bob)) (dogDB w_down)) = Inl StoreUnavailable"
    by code_simp
  have h4: "fst (dogDB_query (InsertDog ''Jetta'' ''Mixed/Mutt'' bob_hex) (dogDB w_down)) =
      Inl StoreUnavailable"
    by code_simp
  have h5: "fst (save \<lparr>user_id = user_id carol, user_name = user_name carol, dogIds = []\<rparr>
      (userDB w_down)) = Inl StoreUnavailable"
    by code_simp
  have h6: "fst (dogDB_query SelectAllDogs (dogDB w_down)) = Inl StoreUnavailable"
    by code_simp
  have h7: "fst (dogDB_query (InsertDog ''Ponzu'' ''Pomeranian'' bob_hex) (dogDB w_mongo_down)) =
      Inr [ponzu] \<and> append_fails bob_hex (dog_id ponzu) w_mongo_down"
    by code_simp
  have c: "\<lparr>user_id = user_id carol, user_name = user_name carol, dogIds = []\<rparr> = carol"
    by (simp add: carol_def)
  note t = store_failure_handling[where w = w_down and e = StoreUnavailable and sq = False
      and root = ponzu and u = ?bob and n = "''Jetta''" and b = "''Mixed/Mutt''" and s = bob_hex
      and oid = "user_id carol" and un = "user_name carol" and d = ponzu]
  note t' = store_failure_handling[where w = w_mongo_down and e = StoreUnavailable and sq = False
      and root = ponzu and u = ?bob and n = "''Ponzu''" and b = "''Pomeranian''" and s = bob_hex
      and oid = "user_id carol" and un = "user_name carol" and d = ponzu]
  from t h1 have c1: "fst (Query_users w_down) = Inl StoreUnavailable"
    by simp
  from t h2 have c2: "fst (Dog_walker False ponzu w_down) = Inl StoreUnavailable"
    by simp
  from t h3 have c3: "fst (User_dogs ?bob w_down) = Inl StoreUnavailable"
    by simp
  from t h4 have c4: "fst (createDog ''Jetta'' ''Mixed/Mutt'' bob_hex w_down) = Inl TypeError"
    by simp
  from t h5 c have c5: "fst (createUser (user_id carol) (user_name carol) w_down) = Inr carol"
    by simp
  from t h6 have c6: "fst (Query_dogs w_down) = Inr []"
    by simp
  from t' h7 have c7: "fst (createDog ''Ponzu'' ''Pomeranian'' bob_hex w_mongo_down) = Inr (Some ponzu)"
    by simp
  from h1 c1 c2 c3 c4 c5 c6 h7 c7 show ?thesis by simp
qed

section \<open>\<open>Dog.walker\<close> and the walker of a dog\<close>

text \<open>
  Claim C1 does not hold of the code. Ponzu is a row of the table whose \<open>walkerId\<close> denotes
  Bob, the second user. \<open>Dog.walker\<close> filters on \<open>dogId\<close>, a path no user document has:
  with \<open>strictQuery\<close> off it finds nobody, with \<open>strictQuery\<close> on the condition is dropped
  and it finds the first user, Alice. Bob is returned in neither case.
\<close>

theorem Dog_walker_wrong_field:
  "ponzu \<in> set (rows (dogDB w_miki)) \<and>
   walkerId ponzu = Some bob_hex \<and>
   ObjectID bob_hex = Some bob_oid \<and>
   users (userDB w_miki) =
     [\<lparr>user_id = alice_oid, user_name = ''Alice'', dogIds = []\<rparr>,
      \<lparr>user_id = bob_oid, user_name = ''Bob'', dogIds = [1, 2]\<rparr>] \<and>
   fst (Dog_walker False ponzu w_miki) = Inr None \<and>
   fst (Dog_walker True ponzu w_miki) =
     Inr (Some \<lparr>user_id = alice_oid, user_name = ''Alice'', dogIds = []\<rparr>)"
  by code_simp


section \<open>Cross-store referential integrity\<close>

text \<open>
  Claim C7, as stated, fails. \<open>createDog\<close> for Ponzu with Bob's id as \<open>walkerId\<close>, on the
  empty stores, inserts the row and its append succeeds, changing nobody. \<open>createUser\<close>
  then saves Bob under that id. No append has failed; Ponzu's \<open>walkerId\<close> denotes Bob, who
  exists, and Bob's \<open>dogIds\<close> does not hold Ponzu's id.
\<close>

theorem referential_integrity_counterexample:
  "reachable w_late \<and>
   fst (dogDB_query (InsertDog ''Ponzu'' ''Pomeranian'' bob_hex) (dogDB init_world)) = Inr [ponzu] \<and>
   \<not> append_fails bob_hex (dog_id ponzu) init_world \<and>
   fst (createUser bob_oid ''Bob'' w_orphan) = Inr bob0 \<and>
   rows (dogDB w_late) = [ponzu] \<and>
   users (userDB w_late) = [bob0] \<and>
   walkerId ponzu = Some bob_hex \<and>
   ObjectID bob_hex = Some (user_id bob0) \<and>
   count_list (dogIds bob0) (dog_id ponzu) = 0 \<and>
   \<not> integrity w_late"
proof -
  have r: "reachable w_late"
    unfolding w_late_def w_orphan_def
    by (intro reachable.user reachable.dog reachable.init)
  have e: "fst (dogDB_query (InsertDog ''Ponzu'' ''Pomeranian'' bob_hex) (dogDB init_world)) =
        Inr [ponzu] \<and>
      \<not> append_fails bob_hex (dog_id ponzu) init_world \<and>
      fst (createUser bob_oid ''Bob'' w_orphan) = Inr bob0 \<and>
      rows (dogDB w_late) = [ponzu] \<and>
      users (userDB w_late) = [bob0] \<and>
      walkerId ponzu = Some bob_hex \<and>
      ObjectID bob_hex = Some (user_id bob0) \<and>
      count_list (dogIds bob0) (dog_id ponzu) = 0 \<and>
      \<not> integrity w_late"
    by code_simp
  from r e show ?thesis
    by simp
qed

text \<open>
  Claim C7, amended. In every state reached through the two mutations in which no append
  has failed in its write and no user has been saved under an \<open>_id\<close> that a row already
  denoted, a row whose \<open>walkerId\<close> denotes an existing user has its id exactly once in that
  user's \<open>dogIds\<close>.
\<close>

theorem referential_integrity:
  assumes "reachable_synced w"
    and "r \<in> set (rows (dogDB w))"
    and "walkerId r = Some s"
    and "ObjectID s = Some (user_id u)"
    and "u \<in> set (users (userDB w))"
  shows "count_list (dogIds u) (dog_id r) = 1"
  using reachable_synced_integrity[OF assms(1)] assms(2-5)
  by (simp add: integrity_iff)


theorem referential_integrity_witness:
  "reachable_synced w_miki \<and>
   miki \<in> set (rows (dogDB w_miki)) \<and>
   walkerId miki = Some bob_hex \<and>
   ObjectID bob_hex = Some (user_id bob) \<and>
   bob \<in> set (users (userDB w_miki)) \<and>
   count_list (dogIds bob) (dog_id miki) = 1"
proof -
  have h2: "miki \<in> set (rows (dogDB w_miki))"
    by (simp add: w_miki_rows)
  have h3: "walkerId miki = Some bob_hex"
    by (simp add: miki_def)
  have h4: "ObjectID bob_hex = Some (user_id bob)"
    by (simp add: bob_hex_oid bob_def)
  have h5: "bob \<in> set (users (userDB w_miki))"
    by (simp add: w_miki_users bob_def)
  from referential_integrity[OF w_miki_synced h2 h3 h4 h5] w_miki_synced h2 h3 h4 h5
  show ?thesis by simp
qed

section \<open>Round trip of \<open>createDog\<close>\<close>

text \<open>
  Claim C4, as stated, fails twice. With the document store down, \<open>createDog\<close> for Bob
  returns Ponzu as a success; once the store is back, the table lists Ponzu and Bob's
  \<open>dogs\<close> is empty. And with a breed of 60 letters and a space, \<open>createDog\<close> succeeds,
  the append succeeds, and the table lists the dog with a breed that is not the argument.
\<close>

theorem createDog_round_trip_counterexample:
  "fst (createDog ''Ponzu'' ''Pomeranian'' bob_hex w_mongo_down) = Inr (Some ponzu) \<and>
   ObjectID bob_hex = Some (user_id bob0) \<and>
   users (userDB w_mongo_down) = [alice0, bob0] \<and>
   users (userDB w_unsynced) = [alice0, bob0] \<and>
   fst (Query_users w_unsynced) = Inr [alice0, bob0] \<and>
   fst (Query_dogs w_unsynced) = Inr [ponzu] \<and>
   fst (User_dogs bob0 w_unsynced) = Inr [] \<and>
   fst (createDog ''Ponzu'' padded_breed bob_hex w_walkers) = Inr (Some ponzu60) \<and>
   \<not> append_fails bob_hex (dog_id ponzu60) w_walkers \<and>
   fst (Query_dogs w_padded) = Inr [ponzu60] \<and>
   breed ponzu60 \<noteq> padded_breed"
  by code_simp

text \<open>
  Claim C4, amended. When \<open>createDog n b s\<close> returns the dog, its append has not failed
  and \<open>s\<close> denotes an existing user, then the dog has name \<open>n\<close>, the first 60 characters
  of \<open>b\<close> as its breed (\<open>b\<close> itself when it has at most 60) and \<open>walkerId\<close> \<open>s\<close>;
  \<open>Query.dogs\<close> afterwards lists it; and \<open>Query.users\<close> afterwards lists that user, whose
  \<open>dogIds\<close> now ends with the dog's id and whose \<open>dogs\<close> resolves to a list with the dog.
\<close>

theorem createDog_round_trip:
  assumes ok: "fst (createDog n b s w) = Inr (Some d)"
    and app: "\<not> append_fails s (dog_id d) w"
    and den: "ObjectID s = Some (user_id u)"
    and u: "u \<in> set (users (userDB w))"
    and dist: "distinct (map user_id (users (userDB w)))"
  shows "dog_name d = n \<and> breed d = take 60 b \<and> walkerId d = Some s \<and>
         (\<exists>ds. fst (Query_dogs (snd (createDog n b s w))) = Inr ds \<and> d \<in> set ds) \<and>
         (\<exists>u' us ds. fst (Query_users (snd (createDog n b s w))) = Inr us \<and> u' \<in> set us \<and>
            user_id u' = user_id u \<and> dogIds u' = dogIds u @ [dog_id d] \<and>
            fst (User_dogs u' (snd (createDog n b s w))) = Inr ds \<and> d \<in> set ds)"
proof -
  let ?k = "next_id (dogDB w)"
  let ?w' = "snd (createDog n b s w)"
  have ins: "\<exists>b'. pg_up (dogDB w) \<and> varchar_assign 60 b = Some b'"
  proof (cases rule: insert_cases[where db = "dogDB w" and b = b])
    case down
    then obtain e where "fst (dogDB_query (InsertDog n b s) (dogDB w)) = Inl e"
      using insert_failed by blast
    from createDog_insert_failed[OF this] ok show ?thesis by simp
  next
    case rejected
    then obtain e where "fst (dogDB_query (InsertDog n b s) (dogDB w)) = Inl e"
      using insert_failed by blast
    from createDog_insert_failed[OF this] ok show ?thesis by simp
  next
    case (ok b')
    then show ?thesis by blast
  qed
  then obtain b' where up: "pg_up (dogDB w)" and vb: "varchar_assign 60 b = Some b'"
    by blast
  note eff = createDog_ok_effect[OF up vb, of n s]
  from ok have d: "d = \<lparr>dog_id = ?k, dog_name = n, breed = b', walkerId = Some s\<rparr>"
    by (simp add: createDog_inserted[OF up vb])
  from app den have mu: "mongo_up (userDB w)"
    by (auto simp add: append_fails_def updateOne_def Let_def split: if_splits)
  have us': "users (userDB ?w') = map (push_dog (user_id u) ?k) (users (userDB w))"
    by (simp add: eff(4) den mu push_first_map[OF dist])
  have rs': "rows (dogDB ?w') = rows (dogDB w) @ [d]"
    by (simp add: eff(1) d)
  let ?u' = "push_dog (user_id u) ?k u"
  have c1: "dog_name d = n \<and> breed d = take 60 b \<and> walkerId d = Some s"
    using varchar_assign_take[OF vb] by (simp add: d)
  have c2: "fst (Query_dogs ?w') = Inr (rows (dogDB ?w'))"
    by (rule Query_dogs_up) (rule eff(3))
  have c3: "fst (Query_users ?w') = Inr (users (userDB ?w'))"
    by (rule Query_users_up) (simp add: eff(5) mu)
  have c4: "?u' \<in> set (users (userDB ?w'))"
    using u by (simp add: us')
  have c5: "user_id ?u' = user_id u \<and> dogIds ?u' = dogIds u @ [dog_id d]"
    by (simp add: push_dog_def d)
  have ne: "dogIds ?u' \<noteq> []"
    by (simp add: push_dog_def)
  have c6: "fst (User_dogs ?u' ?w') =
      Inr (filter (\<lambda>x. dog_id x \<in> set (dogIds ?u')) (rows (dogDB ?w')))"
    by (rule User_dogs_select[OF ne eff(3)])
  have c7: "d \<in> set (filter (\<lambda>x. dog_id x \<in> set (dogIds ?u')) (rows (dogDB ?w')))"
    by (simp add: rs' c5)
  have c8: "d \<in> set (rows (dogDB ?w'))"
    by (simp add: rs')
  from c1 c2 c3 c4 c5 c6 c7 c8 show ?thesis
    by blast
qed


theorem createDog_round_trip_witness:
  "fst (createDog ''Ponzu'' ''Pomeranian'' bob_hex w_walkers) = Inr (Some ponzu) \<and>
   \<not> append_fails bob_hex (dog_id ponzu) w_walkers \<and>
   ObjectID bob_hex = Some (user_id bob0) \<and>
   bob0 \<in> set (users (userDB w_walkers)) \<and>
   distinct (map user_id (users (userDB w_walkers))) \<and>
   dog_name ponzu = ''Ponzu'' \<and> breed ponzu = take 60 ''Pomeranian'' \<and>
   walkerId ponzu = Some bob_hex \<and>
   (\<exists>ds. fst (Query_dogs w_ponzu) = Inr ds \<and> ponzu \<in> set ds) \<and>
   (\<exists>u' us ds. fst (Query_users w_ponzu) = Inr us \<and> u' \<in> set us \<and>
      user_id u' = user_id bob0 \<and> dogIds u' = dogIds bob0 @ [dog_id ponzu] \<and>
      fst (User_dogs u' w_ponzu) = Inr ds \<and> ponzu \<in> set ds)"
proof -
  have h1: "fst (createDog ''Ponzu'' ''Pomeranian'' bob_hex w_walkers) = Inr (Some ponzu)"
    by code_simp
  have h2: "\<not> append_fails bob_hex (dog_id ponzu) w_walkers"
    by code_simp
  have h3: "ObjectID bob_hex = Some (user_id bob0)"
    by (simp add: bob_hex_oid bob0_def)
  have h4: "bob0 \<in> set (users (userDB w_walkers))"
    by code_simp
  have h5: "distinct (map user_id (users (userDB w_walkers)))"
    by code_simp
  from createDog_round_trip[OF h1 h2 h3 h4 h5] h1 h2 h3 h4 h5 show ?thesis
    unfolding w_ponzu_def by blast
qed

end
